theory Spec2Isabelle
  imports Complex_Main "HOL-Library.Multiset"
begin

section \<open>JavaScript values\<close>

text \<open>
  The values a table cell or a parsed CSV cell can hold. A JavaScript number is a
  finite number, \<open>NaN\<close> or an infinity; finite numbers are computed with exactly
  (as rationals), so the rounding of binary floating point is not represented.
  A row of a table is an object: a list of properties, read by key, a missing key
  reading as \<open>undefined\<close>.
\<close>

datatype jsnumber = Fin rat | NaN | PosInf | NegInf

datatype jsval =
    Undefined
  | Null
  | Boolean bool
  | Number jsnumber
  | Str string
  | Obj "(string \<times> jsval) list"

type_synonym row = "(string \<times> jsval) list"

text \<open>\<^verbatim>\<open>row[key]\<close>\<close>

definition getProp :: "row \<Rightarrow> string \<Rightarrow> jsval" where
  "getProp r k = (case map_of r k of None \<Rightarrow> Undefined | Some v \<Rightarrow> v)"

text \<open>Truthiness: \<^verbatim>\<open>undefined\<close>, \<^verbatim>\<open>null\<close>, \<^verbatim>\<open>false\<close>, \<^verbatim>\<open>0\<close>, \<^verbatim>\<open>NaN\<close> and \<^verbatim>\<open>''\<close> are falsy.\<close>

fun truthy :: "jsval \<Rightarrow> bool" where
  "truthy Undefined = False"
| "truthy Null = False"
| "truthy (Boolean b) = b"
| "truthy (Number (Fin q)) = (q \<noteq> 0)"
| "truthy (Number NaN) = False"
| "truthy (Number PosInf) = True"
| "truthy (Number NegInf) = True"
| "truthy (Str s) = (s \<noteq> [])"
| "truthy (Obj ps) = True"

text \<open>\<^verbatim>\<open>a || b\<close>\<close>

definition jsOr :: "jsval \<Rightarrow> jsval \<Rightarrow> jsval" where
  "jsOr a b = (if truthy a then a else b)"

text \<open>Subtraction and negation of numbers, with the propagation of \<open>NaN\<close>.\<close>

fun jsSub :: "jsnumber \<Rightarrow> jsnumber \<Rightarrow> jsnumber" where
  "jsSub NaN y = NaN"
| "jsSub x NaN = NaN"
| "jsSub (Fin a) (Fin b) = Fin (a - b)"
| "jsSub (Fin a) PosInf = NegInf"
| "jsSub (Fin a) NegInf = PosInf"
| "jsSub PosInf PosInf = NaN"
| "jsSub PosInf y = PosInf"
| "jsSub NegInf NegInf = NaN"
| "jsSub NegInf y = NegInf"

text \<open>
  The built-in conversions of the host that the program calls and that are not part of
  its source: \<^verbatim>\<open>Date.parse\<close> of a string (a time value, or \<open>NaN\<close> when the text is no
  date), the conversion of a string to a number, the printing of a finite number,
  \<^verbatim>\<open>String.prototype.localeCompare\<close> (negative, zero or positive), and the date part
  of \<^verbatim>\<open>toISOString\<close> of a valid time value. The definitions below take them as a
  parameter.
\<close>

record host =
  dateParse :: "string \<Rightarrow> jsnumber"
  stringToNumber :: "string \<Rightarrow> jsnumber"
  numberToString :: "rat \<Rightarrow> string"
  localeCompare :: "string \<Rightarrow> string \<Rightarrow> int"
  isoDate :: "int \<Rightarrow> string"

text \<open>\<^verbatim>\<open>ToNumber\<close>, applied by the arithmetic operators and by \<^verbatim>\<open>Number(v)\<close>.\<close>

fun toNumber :: "host \<Rightarrow> jsval \<Rightarrow> jsnumber" where
  "toNumber h Undefined = NaN"
| "toNumber h Null = Fin 0"
| "toNumber h (Boolean b) = Fin (if b then 1 else 0)"
| "toNumber h (Number n) = n"
| "toNumber h (Str s) = stringToNumber h s"
| "toNumber h (Obj ps) = NaN"

text \<open>\<^verbatim>\<open>String(v)\<close>\<close>

fun toString :: "host \<Rightarrow> jsval \<Rightarrow> string" where
  "toString h Undefined = ''undefined''"
| "toString h Null = ''null''"
| "toString h (Boolean b) = (if b then ''true'' else ''false'')"
| "toString h (Number (Fin q)) = numberToString h q"
| "toString h (Number NaN) = ''NaN''"
| "toString h (Number PosInf) = ''Infinity''"
| "toString h (Number NegInf) = ''-Infinity''"
| "toString h (Str s) = s"
| "toString h (Obj ps) = ''[object Object]''"

text \<open>
  \<^verbatim>\<open>new Date(v).getTime()\<close>: a string is parsed, any other value is converted to a
  number and clipped to a time value (an integer of at most 8.64e15 in magnitude).
\<close>

definition timeClip :: "jsnumber \<Rightarrow> jsnumber" where
  "timeClip n = (case n of
       Fin q \<Rightarrow> if \<bar>q\<bar> > 8640000000000000 then NaN
                else Fin (of_int (if q \<ge> 0 then \<lfloor>q\<rfloor> else \<lceil>q\<rceil>))
     | _ \<Rightarrow> NaN)"

definition dateGetTime :: "host \<Rightarrow> jsval \<Rightarrow> jsnumber" where
  "dateGetTime h v = (case v of Str s \<Rightarrow> dateParse h s | _ \<Rightarrow> timeClip (toNumber h v))"

text \<open>
  \<^verbatim>\<open>toLowerCase\<close> and \<^verbatim>\<open>toUpperCase\<close> on the letters of ASCII; a character beyond ASCII
  is left as it is.
\<close>

definition lowerChar :: "char \<Rightarrow> char" where
  "lowerChar c = (let n = (of_char c :: nat) in if 65 \<le> n \<and> n \<le> 90 then char_of (n + 32) else c)"

definition upperChar :: "char \<Rightarrow> char" where
  "upperChar c = (let n = (of_char c :: nat) in if 97 \<le> n \<and> n \<le> 122 then char_of (n - 32) else c)"

definition toLowerCase :: "string \<Rightarrow> string" where
  "toLowerCase s = map lowerChar s"

definition toUpperCase :: "string \<Rightarrow> string" where
  "toUpperCase s = map upperChar s"

section \<open>The sortable table (SortableTable.js)\<close>

subsection \<open>Columns, properties and the sort state\<close>

datatype direction = Asc | Desc

record column =
  key :: string
  header :: string
  ctype :: "string option"
  render :: "(jsval \<Rightarrow> jsval) option"

record sort_config =
  sortKey :: "string option"
  sortDirection :: direction

text \<open>
  The properties a caller passes. The component destructures \<open>data\<close>, \<open>columns\<close>,
  \<open>tableName\<close>, the class names and the three virtualization settings; the caller in
  FinancialDashboard.js also passes \<open>defaultSortKey\<close> and \<open>defaultSortDirection\<close>,
  which the component does not read.
\<close>

record table_props =
  tableName :: string
  columns :: "column list"
  rowClassName :: string
  getRowClassName :: "row \<Rightarrow> string"
  useVirtualization :: bool
  virtualHeight :: nat
  rowHeight :: nat
  defaultSortKey :: "string option"
  defaultSortDirection :: "direction option"

text \<open>\<^verbatim>\<open>useState({ key: null, direction: 'asc' })\<close>\<close>

definition initialSortConfig :: "table_props \<Rightarrow> sort_config" where
  "initialSortConfig p = \<lparr>sortKey = None, sortDirection = Asc\<rparr>"

text \<open>\<^verbatim>\<open>(columns.find(col => col.key === k) || {}).type || 'string'\<close>\<close>

definition columnType :: "column list \<Rightarrow> string \<Rightarrow> string" where
  "columnType cols k =
     (case find (\<lambda>col. key col = k) cols of
        None \<Rightarrow> ''string''
      | Some col \<Rightarrow> (case ctype col of
                       None \<Rightarrow> ''string''
                     | Some t \<Rightarrow> if t = [] then ''string'' else t))"

definition requestSort :: "column list \<Rightarrow> string \<Rightarrow> sort_config \<Rightarrow> sort_config" where
  "requestSort cols k prevConfig =
     (let type = columnType cols k in
      if sortKey prevConfig = Some k then
        (if type = ''number'' \<or> type = ''date''
         then \<lparr>sortKey = Some k,
               sortDirection = (if sortDirection prevConfig = Desc then Asc else Desc)\<rparr>
         else \<lparr>sortKey = Some k,
               sortDirection = (if sortDirection prevConfig = Asc then Desc else Asc)\<rparr>)
      else
        (if type = ''number'' \<or> type = ''date''
         then \<lparr>sortKey = Some k, sortDirection = Desc\<rparr>
         else \<lparr>sortKey = Some k, sortDirection = Asc\<rparr>))"

subsection \<open>Sorting\<close>

text \<open>
  The comparison function of \<open>sortedData\<close>, on the two cell values read from the rows.
  The three keys are the operands the source compares: \<^verbatim>\<open>aValue || 0\<close> for a number
  column, \<^verbatim>\<open>aValue ? new Date(aValue).getTime() : 0\<close> for a date column and
  \<^verbatim>\<open>String(aValue || '').toLowerCase()\<close> for a string column.
\<close>

definition numberKey :: "host \<Rightarrow> jsval \<Rightarrow> jsnumber" where
  "numberKey h v = toNumber h (jsOr v (Number (Fin 0)))"

definition dateKey :: "host \<Rightarrow> jsval \<Rightarrow> jsnumber" where
  "dateKey h v = (if truthy v then dateGetTime h v else Fin 0)"

definition stringKey :: "host \<Rightarrow> jsval \<Rightarrow> string" where
  "stringKey h v = toLowerCase (toString h (jsOr v (Str [])))"

definition compareValues :: "host \<Rightarrow> string \<Rightarrow> direction \<Rightarrow> jsval \<Rightarrow> jsval \<Rightarrow> jsnumber" where
  "compareValues h type dir aValue bValue =
     (if type = ''number'' then
        (if dir = Asc then jsSub (numberKey h aValue) (numberKey h bValue)
         else jsSub (numberKey h bValue) (numberKey h aValue))
      else if type = ''date'' then
        (if dir = Asc then jsSub (dateKey h aValue) (dateKey h bValue)
         else jsSub (dateKey h bValue) (dateKey h aValue))
      else
        (if dir = Asc
         then Fin (of_int (localeCompare h (stringKey h aValue) (stringKey h bValue)))
         else Fin (of_int (localeCompare h (stringKey h bValue) (stringKey h aValue)))))"

text \<open>
  \<^verbatim>\<open>Array.prototype.sort\<close> with a comparison function: stable, a result of \<open>NaN\<close>
  counting as zero. One element is placed after every element that does not compare
  greater than it. (For a comparison function that is no consistent order the
  language leaves the result to the implementation; the model fixes this one.)
\<close>

definition comesAfter :: "jsnumber \<Rightarrow> bool" where
  "comesAfter n = (case n of Fin q \<Rightarrow> q > 0 | PosInf \<Rightarrow> True | _ \<Rightarrow> False)"

fun insertBy :: "('a \<Rightarrow> 'a \<Rightarrow> jsnumber) \<Rightarrow> 'a \<Rightarrow> 'a list \<Rightarrow> 'a list" where
  "insertBy cmp x [] = [x]"
| "insertBy cmp x (y # ys) =
     (if comesAfter (cmp y x) then x # y # ys else y # insertBy cmp x ys)"

definition sortBy :: "('a \<Rightarrow> 'a \<Rightarrow> jsnumber) \<Rightarrow> 'a list \<Rightarrow> 'a list" where
  "sortBy cmp xs = foldl (\<lambda>acc x. insertBy cmp x acc) [] xs"

definition sortedData :: "host \<Rightarrow> column list \<Rightarrow> sort_config \<Rightarrow> row list \<Rightarrow> row list" where
  "sortedData h cols cfg data =
     (case sortKey cfg of
        None \<Rightarrow> data
      | Some k \<Rightarrow>
          if k = [] then data
          else sortBy (\<lambda>a b. compareValues h (columnType cols k) (sortDirection cfg)
                                (getProp a k) (getProp b k)) data)"

subsection \<open>Rendering the body: plain and virtualized\<close>

text \<open>
  What one rendered row shows: its class name and the content of its cells, in the
  order of the columns. The plain body (\<open>useVirtualization\<close> false) maps over
  \<open>sortedData\<close> and calls a column's \<open>render\<close> with the row; \<open>RowRenderer\<close>, which the
  virtualized list calls, calls it with the cell value \<^verbatim>\<open>row[column.key]\<close>.
\<close>

record rendered_row =
  rowClass :: string
  cells :: "jsval list"

definition trClass :: "table_props \<Rightarrow> row \<Rightarrow> string" where
  "trClass p r = ''tr flex border-b border-gray-200 '' @ rowClassName p @ '' '' @ getRowClassName p r"

definition plainRow :: "table_props \<Rightarrow> row \<Rightarrow> rendered_row" where
  "plainRow p r =
     \<lparr>rowClass = trClass p r,
      cells = map (\<lambda>column. case render column of
                                Some f \<Rightarrow> f (Obj r)
                              | None \<Rightarrow> getProp r (key column)) (columns p)\<rparr>"

definition plainBody :: "table_props \<Rightarrow> row list \<Rightarrow> rendered_row list" where
  "plainBody p rows = map (plainRow p) rows"

text \<open>\<open>RowRenderer\<close> at an index below the item count (the list passes no other).\<close>

definition RowRenderer :: "table_props \<Rightarrow> row list \<Rightarrow> nat \<Rightarrow> rendered_row" where
  "RowRenderer p rows index =
     (let r = rows ! index in
      \<lparr>rowClass = trClass p r,
       cells = map (\<lambda>column. case render column of
                                 Some f \<Rightarrow> f (getProp r (key column))
                               | None \<Rightarrow> getProp r (key column)) (columns p)\<rparr>)"

text \<open>
  The fixed-size list of react-window is not part of the sources. It shows the rows
  that intersect the viewport: with rows of height \<open>rowHeight\<close> stacked from offset 0,
  row \<open>i\<close> occupies \<open>[i * rowHeight, (i + 1) * rowHeight)\<close> and the viewport
  \<open>[scrollOffset, scrollOffset + virtualHeight)\<close>.
\<close>

definition visibleIndices :: "nat \<Rightarrow> nat \<Rightarrow> nat \<Rightarrow> nat \<Rightarrow> nat list" where
  "visibleIndices height itemSize itemCount scrollOffset =
     filter (\<lambda>i. i * itemSize < scrollOffset + height \<and> scrollOffset < (i + 1) * itemSize)
       [0..<itemCount]"

definition virtualBody :: "table_props \<Rightarrow> row list \<Rightarrow> nat \<Rightarrow> rendered_row list" where
  "virtualBody p rows scrollOffset =
     map (RowRenderer p rows)
       (visibleIndices (virtualHeight p) (rowHeight p) (length rows) scrollOffset)"

definition tableBody :: "host \<Rightarrow> table_props \<Rightarrow> sort_config \<Rightarrow> row list \<Rightarrow> nat \<Rightarrow> rendered_row list" where
  "tableBody h p cfg data scrollOffset =
     (let rows = sortedData h (columns p) cfg data in
      if \<not> useVirtualization p then plainBody p rows
      else virtualBody p rows scrollOffset)"

subsection \<open>Export\<close>

datatype js_error = RangeError | TypeError

text \<open>What an export does: an alert with a message, or \<^verbatim>\<open>saveAs(blob, fileName)\<close>.\<close>

datatype 'c export_effect = Alert string | SaveAs 'c string

fun join :: "string \<Rightarrow> string list \<Rightarrow> string" where
  "join sep [] = []"
| "join sep [x] = x"
| "join sep (x # y # ys) = x @ sep @ join sep (y # ys)"

fun mapE :: "('a \<Rightarrow> 'e + 'b) \<Rightarrow> 'a list \<Rightarrow> 'e + 'b list" where
  "mapE f [] = Inr []"
| "mapE f (x # xs) =
     (case f x of
        Inl e \<Rightarrow> Inl e
      | Inr y \<Rightarrow> (case mapE f xs of Inl e \<Rightarrow> Inl e | Inr ys \<Rightarrow> Inr (y # ys)))"

text \<open>\<^verbatim>\<open>tableName.replace(/\s+/g, '_')\<close>: every run of white space becomes one underscore.\<close>

definition isSpace :: "char \<Rightarrow> bool" where
  "isSpace c = (let n = (of_char c :: nat) in n = 32 \<or> (9 \<le> n \<and> n \<le> 13))"

fun replaceSpaces :: "bool \<Rightarrow> string \<Rightarrow> string" where
  "replaceSpaces inRun [] = []"
| "replaceSpaces inRun (c # cs) =
     (if isSpace c then (if inRun then replaceSpaces True cs else CHR ''_'' # replaceSpaces True cs)
      else c # replaceSpaces False cs)"

text \<open>\<open>today\<close> is \<^verbatim>\<open>new Date().toISOString().slice(0, 10)\<close>, the day of the export.\<close>

definition exportFileName :: "string \<Rightarrow> string \<Rightarrow> string \<Rightarrow> string" where
  "exportFileName name today ext = replaceSpaces False name @ ''_'' @ today @ ext"

text \<open>
  The value of one cell of the CSV. \<^verbatim>\<open>toISOString\<close> throws a \<open>RangeError\<close> on an
  invalid date.
\<close>

definition csvValue :: "host \<Rightarrow> column \<Rightarrow> row \<Rightarrow> js_error + jsval" where
  "csvValue h col r =
     (let value = getProp r (key col) in
      case render col of
        None \<Rightarrow> Inr value
      | Some f \<Rightarrow>
          if ctype col = Some ''number'' then Inr (Number (toNumber h value))
          else if ctype col = Some ''date'' \<and> truthy value then
            (case dateGetTime h value of
               Fin t \<Rightarrow> Inr (Str (isoDate h \<lfloor>t\<rfloor>))
             | _ \<Rightarrow> Inl RangeError)
          else Inr value)"

definition csvField :: "host \<Rightarrow> jsval \<Rightarrow> string" where
  "csvField h value =
     (if value = Null \<or> value = Undefined then []
      else case value of
             Str s \<Rightarrow> if CHR '','' \<in> set s then [CHR 0x22] @ s @ [CHR 0x22] else s
           | _ \<Rightarrow> toString h value)"

definition csvRow :: "host \<Rightarrow> column list \<Rightarrow> row \<Rightarrow> js_error + string" where
  "csvRow h cols r =
     (case mapE (\<lambda>col. csvValue h col r) cols of
        Inl e \<Rightarrow> Inl e
      | Inr values \<Rightarrow> Inr (join '','' (map (csvField h) values)))"

definition exportToCSV ::
  "host \<Rightarrow> string \<Rightarrow> table_props \<Rightarrow> sort_config \<Rightarrow> row list \<Rightarrow> string export_effect" where
  "exportToCSV h today p cfg data =
     (if length data = 0 then Alert ''No data to export''
      else
        let headerRow = join '','' (map header (columns p)) in
        case mapE (csvRow h (columns p)) (sortedData h (columns p) cfg data) of
          Inl e \<Rightarrow> Alert ''Failed to export data. See console for details.''
        | Inr dataRows \<Rightarrow>
            SaveAs (headerRow @ [CHR 0x0A] @ join [CHR 0x0A] dataRows)
              (exportFileName (tableName p) today ''.csv''))"

text \<open>
  The structured export builds one object per row of \<open>sortedData\<close>, assigning
  \<^verbatim>\<open>exportRow[col.header] = row[col.key]\<close> column by column; the list of these objects
  is what \<^verbatim>\<open>JSON.stringify\<close> is given.
\<close>

definition setProp :: "('k \<times> 'v) list \<Rightarrow> 'k \<Rightarrow> 'v \<Rightarrow> ('k \<times> 'v) list" where
  "setProp obj k v = (if k \<in> fst ` set obj then map (\<lambda>(k', v'). if k' = k then (k', v) else (k', v')) obj
                      else obj @ [(k, v)])"

definition exportRow :: "column list \<Rightarrow> row \<Rightarrow> row" where
  "exportRow cols r = foldl (\<lambda>obj col. setProp obj (header col) (getProp r (key col))) [] cols"

definition exportToJSON ::
  "host \<Rightarrow> string \<Rightarrow> table_props \<Rightarrow> sort_config \<Rightarrow> row list \<Rightarrow> (row list) export_effect" where
  "exportToJSON h today p cfg data =
     (if length data = 0 then Alert ''No data to export''
      else SaveAs (map (exportRow (columns p)) (sortedData h (columns p) cfg data))
             (exportFileName (tableName p) today ''.json''))"

subsection \<open>The caller's array in a store\<close>

text \<open>
  To speak of the array the caller passes and of the copy that is sorted, arrays and
  row objects are put in a store: a cell is an array of references or a row object,
  an address is an index into the store, and an allocation appends a cell.
  \<^verbatim>\<open>[...data]\<close> allocates an array with the same references; \<^verbatim>\<open>sort\<close> overwrites the
  array it is called on. \<open>sortedDataRef\<close> is \<open>sortedData\<close> on references: it returns the
  caller's array itself when there is no sort key. A table instance is its sort
  state, the store and the reference of the sorted view; activating a header sets
  the sort state and computes the view again, an export reads the view.
\<close>

datatype cell = ArrayCell "nat list" | RowCell row

type_synonym store = "cell list"

definition elements :: "store \<Rightarrow> nat \<Rightarrow> nat list" where
  "elements st a = (if a < length st then (case st ! a of ArrayCell xs \<Rightarrow> xs | RowCell r \<Rightarrow> []) else [])"

definition rowAt :: "store \<Rightarrow> nat \<Rightarrow> row" where
  "rowAt st a = (if a < length st then (case st ! a of RowCell r \<Rightarrow> r | ArrayCell xs \<Rightarrow> []) else [])"

definition rowsOf :: "store \<Rightarrow> nat \<Rightarrow> row list" where
  "rowsOf st a = map (rowAt st) (elements st a)"

definition spread :: "store \<Rightarrow> nat \<Rightarrow> store \<times> nat" where
  "spread st a = (st @ [ArrayCell (elements st a)], length st)"

definition arraySort :: "(nat \<Rightarrow> nat \<Rightarrow> jsnumber) \<Rightarrow> store \<Rightarrow> nat \<Rightarrow> store" where
  "arraySort cmp st a = st[a := ArrayCell (sortBy cmp (elements st a))]"

definition sortedDataRef :: "host \<Rightarrow> column list \<Rightarrow> sort_config \<Rightarrow> store \<Rightarrow> nat \<Rightarrow> store \<times> nat" where
  "sortedDataRef h cols cfg st dataRef =
     (case sortKey cfg of
        None \<Rightarrow> (st, dataRef)
      | Some k \<Rightarrow>
          if k = [] then (st, dataRef)
          else
            (case spread st dataRef of
               (st1, copy) \<Rightarrow>
                 (arraySort (\<lambda>a b. compareValues h (columnType cols k) (sortDirection cfg)
                                      (getProp (rowAt st1 a) k) (getProp (rowAt st1 b) k)) st1 copy,
                  copy)))"

datatype table_op = RequestSort string | ExportCSV | ExportJSON

datatype table_effect = NoEffect | CsvEffect "string export_effect" | JsonEffect "(row list) export_effect"

record table_state =
  config :: sort_config
  heap :: store
  view :: nat

definition tableStep ::
  "host \<Rightarrow> string \<Rightarrow> table_props \<Rightarrow> nat \<Rightarrow> table_state \<Rightarrow> table_op \<Rightarrow> table_state \<times> table_effect" where
  "tableStep h today p dataRef s op =
     (case op of
        RequestSort k \<Rightarrow>
          (let cfg = requestSort (columns p) k (config s) in
           case sortedDataRef h (columns p) cfg (heap s) dataRef of
             (st, v) \<Rightarrow> (\<lparr>config = cfg, heap = st, view = v\<rparr>, NoEffect))
      | ExportCSV \<Rightarrow> (s, CsvEffect (exportToCSV h today p (config s) (rowsOf (heap s) dataRef)))
      | ExportJSON \<Rightarrow> (s, JsonEffect (exportToJSON h today p (config s) (rowsOf (heap s) dataRef))))"

fun tableRun ::
  "host \<Rightarrow> string \<Rightarrow> table_props \<Rightarrow> nat \<Rightarrow> table_state \<Rightarrow> table_op list \<Rightarrow> table_state \<times> table_effect list" where
  "tableRun h today p dataRef s [] = (s, [])"
| "tableRun h today p dataRef s (op # ops) =
     (case tableStep h today p dataRef s op of
        (s1, e) \<Rightarrow> (case tableRun h today p dataRef s1 ops of (s2, es) \<Rightarrow> (s2, e # es)))"

definition mount :: "table_props \<Rightarrow> store \<Rightarrow> nat \<Rightarrow> table_state" where
  "mount p st dataRef = \<lparr>config = initialSortConfig p, heap = st, view = dataRef\<rparr>"

section \<open>The analysis (FinancialDashboard.js)\<close>

subsection \<open>Transactions\<close>

text \<open>
  One parsed row of the CSV. The booking date is a date in the form YYYY-MM-DD,
  held as its day number (days since 1970-01-01; years of four digits, so that the
  order of the strings is the order of the days), or a blank cell, which the parser
  turns into \<open>null\<close>, or other text, which is no date. The partner name is whatever
  the parser made of the cell; the amount is a number; \<open>rest\<close> holds the other
  columns. The host's local time zone is taken to be UTC, so that a date's local
  calendar fields are those of its ISO string.
\<close>

datatype booking_date = IsoDate int | BlankDate | NoDate string

record transaction =
  bookingDate :: booking_date
  partnerName :: jsval
  amount :: rat
  rest :: row

definition msPerDay :: int where
  "msPerDay = 86400000"

text \<open>\<^verbatim>\<open>new Date(t["Booking Date"]).getTime()\<close>; \<^verbatim>\<open>new Date(null)\<close> is the epoch.\<close>

fun bookingTime :: "booking_date \<Rightarrow> jsnumber" where
  "bookingTime (IsoDate d) = Fin (of_int (d * msPerDay))"
| "bookingTime BlankDate = Fin 0"
| "bookingTime (NoDate s) = NaN"

text \<open>
  \<^verbatim>\<open>new Date(k).getTime()\<close> for a key \<open>k\<close> of the object \<open>dailyBalances\<close>: the key of a
  blank cell is the string "null", which is no date.
\<close>

fun keyTime :: "booking_date \<Rightarrow> jsnumber" where
  "keyTime (IsoDate d) = Fin (of_int (d * msPerDay))"
| "keyTime BlankDate = NaN"
| "keyTime (NoDate s) = NaN"

subsection \<open>Calendar\<close>

text \<open>
  Year, month and day of a day number in the proleptic Gregorian calendar, and back
  (\<^verbatim>\<open>getFullYear\<close>, \<^verbatim>\<open>getMonth\<close> + 1, \<^verbatim>\<open>getDate\<close>, and \<^verbatim>\<open>new Date(y, m - 1, d)\<close>);
  \<^verbatim>\<open>getDay\<close> is 0 on a Sunday, and 1970-01-01 was a Thursday.
\<close>

definition civilFromDays :: "int \<Rightarrow> int \<times> int \<times> int" where
  "civilFromDays z0 =
     (let z = z0 + 719468;
          era = z div 146097;
          doe = z - era * 146097;
          yoe = (doe - doe div 1460 + doe div 36524 - doe div 146096) div 365;
          doy = doe - (365 * yoe + yoe div 4 - yoe div 100);
          mp = (5 * doy + 2) div 153;
          d = doy - (153 * mp + 2) div 5 + 1;
          m = (if mp < 10 then mp + 3 else mp - 9);
          y = yoe + era * 400 + (if m \<le> 2 then 1 else 0)
      in (y, m, d))"

definition daysFromCivil :: "int \<Rightarrow> int \<Rightarrow> int \<Rightarrow> int" where
  "daysFromCivil y0 m d =
     (let y = (if m \<le> 2 then y0 - 1 else y0);
          era = y div 400;
          yoe = y - era * 400;
          doy = (153 * (if m > 2 then m - 3 else m + 9) + 2) div 5 + d - 1;
          doe = yoe * 365 + yoe div 4 - yoe div 100 + doy
      in era * 146097 + doe - 719468)"

definition getFullYear :: "int \<Rightarrow> int" where
  "getFullYear day = fst (civilFromDays day)"

definition getMonth :: "int \<Rightarrow> int" where
  "getMonth day = fst (snd (civilFromDays day)) - 1"

definition getDay :: "int \<Rightarrow> int" where
  "getDay day = (day + 4) mod 7"

subsection \<open>Helpers of lodash\<close>

text \<open>
  \<^verbatim>\<open>_.sumBy\<close> adds up; \<^verbatim>\<open>_.sortBy\<close> and \<^verbatim>\<open>_.orderBy\<close> sort stably by
  \<open>compareAscending\<close> on the criterion, which puts \<open>NaN\<close> last; \<^verbatim>\<open>_.groupBy\<close> collects
  the elements under the string of their key, in an object. The keys of an object
  are enumerated with the array indices first, in ascending order, then the other
  keys in the order they were added.
\<close>

definition sumBy :: "('a \<Rightarrow> rat) \<Rightarrow> 'a list \<Rightarrow> rat" where
  "sumBy f xs = sum_list (map f xs)"

fun jsLess :: "jsnumber \<Rightarrow> jsnumber \<Rightarrow> bool" where
  "jsLess NaN y = False"
| "jsLess x NaN = False"
| "jsLess (Fin a) (Fin b) = (a < b)"
| "jsLess (Fin a) PosInf = True"
| "jsLess (Fin a) NegInf = False"
| "jsLess PosInf y = False"
| "jsLess NegInf NegInf = False"
| "jsLess NegInf y = True"

definition compareAscending :: "jsnumber \<Rightarrow> jsnumber \<Rightarrow> jsnumber" where
  "compareAscending v other =
     (if v = other \<and> v \<noteq> NaN then Fin 0
      else if jsLess other v \<or> v = NaN then Fin 1
      else if jsLess v other \<or> other = NaN then Fin (- 1)
      else Fin 0)"

definition lodashSortBy :: "('a \<Rightarrow> jsnumber) \<Rightarrow> 'a list \<Rightarrow> 'a list" where
  "lodashSortBy f xs = sortBy (\<lambda>a b. compareAscending (f a) (f b)) xs"

definition orderByDesc :: "('a \<Rightarrow> jsnumber) \<Rightarrow> 'a list \<Rightarrow> 'a list" where
  "orderByDesc f xs = sortBy (\<lambda>a b. jsSub (Fin 0) (compareAscending (f a) (f b))) xs"

text \<open>\<^verbatim>\<open>if (!obj[k]) obj[k] = []; obj[k].push(v)\<close>\<close>

definition groupPush :: "('k \<times> 'v list) list \<Rightarrow> 'k \<Rightarrow> 'v \<Rightarrow> ('k \<times> 'v list) list" where
  "groupPush obj k v =
     (case map_of obj k of
        None \<Rightarrow> obj @ [(k, [v])]
      | Some vs \<Rightarrow> setProp obj k (vs @ [v]))"

definition isDigit :: "char \<Rightarrow> bool" where
  "isDigit c = (let n = (of_char c :: nat) in 48 \<le> n \<and> n \<le> 57)"

definition digitsValue :: "string \<Rightarrow> int" where
  "digitsValue s = foldl (\<lambda>n c. 10 * n + (of_char c - 48)) 0 s"

definition isArrayIndex :: "string \<Rightarrow> bool" where
  "isArrayIndex s =
     (s \<noteq> [] \<and> list_all isDigit s \<and> (s = ''0'' \<or> hd s \<noteq> CHR ''0'') \<and> digitsValue s < 4294967295)"

definition objectEntries :: "(string \<times> 'v) list \<Rightarrow> (string \<times> 'v) list" where
  "objectEntries obj =
     sort_key (\<lambda>e. digitsValue (fst e)) (filter (\<lambda>e. isArrayIndex (fst e)) obj)
       @ filter (\<lambda>e. \<not> isArrayIndex (fst e)) obj"

definition groupBy :: "('a \<Rightarrow> string) \<Rightarrow> 'a list \<Rightarrow> (string \<times> 'a list) list" where
  "groupBy f xs = objectEntries (foldl (\<lambda>obj x. groupPush obj (f x) x) [] xs)"

text \<open>\<^verbatim>\<open>_.min\<close> and \<^verbatim>\<open>_.max\<close>: \<open>undefined\<close> for an empty array.\<close>

fun lodashMin :: "rat list \<Rightarrow> rat option" where
  "lodashMin [] = None"
| "lodashMin (x # xs) = Some (foldl min x xs)"

fun lodashMax :: "rat list \<Rightarrow> rat option" where
  "lodashMax [] = None"
| "lodashMax (x # xs) = Some (foldl max x xs)"

text \<open>Division of two finite numbers.\<close>

definition jsDivide :: "rat \<Rightarrow> rat \<Rightarrow> jsnumber" where
  "jsDivide a b =
     (if b = 0 then (if a = 0 then NaN else if a > 0 then PosInf else NegInf)
      else Fin (a / b))"

subsection \<open>The steps of the analysis\<close>

text \<open>
  Each definition is the constant of the same name in the effect of
  \<open>FinancialDashboard\<close> (with \<open>compute\<close> in front where the result object has a field
  of that name).
\<close>

definition sortedTransactions :: "transaction list \<Rightarrow> transaction list" where
  "sortedTransactions transactions = lodashSortBy (\<lambda>t. bookingTime (bookingDate t)) transactions"

text \<open>\<^verbatim>\<open>transactions.map(t => new Date(t["Booking Date"])).sort((a, b) => a - b)\<close>\<close>

definition dates :: "transaction list \<Rightarrow> jsnumber list" where
  "dates transactions = sortBy jsSub (map (\<lambda>t. bookingTime (bookingDate t)) transactions)"

definition nameVariations :: "string list" where
  "nameVariations = [''EUGENIO MARIA BATTAGLIA'', ''Eugenio Battaglia'', ''Eugenio Maria Battaglia'']"

definition consolidate :: "transaction \<Rightarrow> transaction" where
  "consolidate tx =
     (case partnerName tx of
        Str name \<Rightarrow>
          if list_ex (\<lambda>variation. toUpperCase name = toUpperCase variation) nameVariations
          then tx\<lparr>partnerName := Str ''My Transfers''\<rparr>
          else tx
      | _ \<Rightarrow> tx)"

definition consolidatedSortedTransactions :: "transaction list \<Rightarrow> transaction list" where
  "consolidatedSortedTransactions transactions = map consolidate (sortedTransactions transactions)"

record partner_volume =
  pName :: string
  pCount :: nat
  pTotalVolume :: rat
  pTotalIn :: rat
  pTotalOut :: rat
  pNet :: rat

definition computePartnerVolumes :: "host \<Rightarrow> transaction list \<Rightarrow> partner_volume list" where
  "computePartnerVolumes h consolidated =
     orderByDesc (\<lambda>e. Fin (pTotalVolume e))
       (map (\<lambda>(name, txs).
               \<lparr>pName = name,
                pCount = length txs,
                pTotalVolume = sumBy (\<lambda>t. \<bar>amount t\<bar>) txs,
                pTotalIn = sumBy (\<lambda>t. if amount t > 0 then amount t else 0) txs,
                pTotalOut = sumBy (\<lambda>t. if amount t < 0 then amount t else 0) txs,
                pNet = sumBy amount txs\<rparr>)
          (groupBy (\<lambda>t. toString h (partnerName t)) consolidated))"

text \<open>
  The running balance, stored under the booking date of each transaction in turn:
  \<^verbatim>\<open>runningBalance += tx["Amount (EUR)"]; dailyBalances[date] = runningBalance\<close>.
\<close>

fun balanceLoop :: "rat \<Rightarrow> (booking_date \<times> rat) list \<Rightarrow> transaction list \<Rightarrow> (booking_date \<times> rat) list" where
  "balanceLoop runningBalance dailyBalances [] = dailyBalances"
| "balanceLoop runningBalance dailyBalances (tx # txs) =
     balanceLoop (runningBalance + amount tx)
       (setProp dailyBalances (bookingDate tx) (runningBalance + amount tx)) txs"

definition computeDailyBalances :: "transaction list \<Rightarrow> (booking_date \<times> rat) list" where
  "computeDailyBalances sortedTxs = balanceLoop 0 [] sortedTxs"

text \<open>
  \<^verbatim>\<open>Object.keys(dailyBalances).sort()\<close>: the dates in ascending order, then the key
  "null" of a blank cell. (Text that is no date does not get here: the analysis has
  failed before.)
\<close>

definition allDates :: "(booking_date \<times> rat) list \<Rightarrow> booking_date list" where
  "allDates dailyBalances =
     map IsoDate (sort (concat (map (\<lambda>(k, v). case k of IsoDate d \<Rightarrow> [d] | _ \<Rightarrow> []) dailyBalances)))
       @ filter (\<lambda>k. case k of IsoDate d \<Rightarrow> False | _ \<Rightarrow> True) (map fst dailyBalances)"

text \<open>\<^verbatim>\<open>new Date(allDates[0])\<close> and \<^verbatim>\<open>new Date(allDates[allDates.length - 1])\<close>\<close>

definition startDate :: "booking_date list \<Rightarrow> jsnumber" where
  "startDate ks = (case ks of [] \<Rightarrow> NaN | k # _ \<Rightarrow> keyTime k)"

definition endDate :: "booking_date list \<Rightarrow> jsnumber" where
  "endDate ks = (if ks = [] then NaN else keyTime (last ks))"

text \<open>
  The loop that fills in the days: \<open>currentDate\<close> and \<open>endTime\<close> are time values,
  \<^verbatim>\<open>currentDate.toISOString().slice(0, 10)\<close> is the day \<open>currentDate div msPerDay\<close>, and
  \<^verbatim>\<open>setDate(getDate() + 1)\<close> adds one day. The days grow, so every assignment to
  \<open>allDailyBalances\<close> adds a new key at the end.
\<close>

function fillLoop :: "(booking_date \<times> rat) list \<Rightarrow> int \<Rightarrow> int \<Rightarrow> rat \<Rightarrow> (int \<times> rat) list" where
  "fillLoop dailyBalances currentDate endTime lastBalance =
     (if currentDate \<le> endTime then
        (let dateString = currentDate div msPerDay;
             lastBalance' = (case map_of dailyBalances (IsoDate dateString) of
                               Some b \<Rightarrow> b
                             | None \<Rightarrow> lastBalance)
         in (dateString, lastBalance')
              # fillLoop dailyBalances (currentDate + msPerDay) endTime lastBalance')
      else [])"
  by pat_completeness auto
termination
  by (relation "measure (\<lambda>(db, cur, e, b). nat (e - cur + 1))") (auto simp: msPerDay_def)

declare fillLoop.simps [simp del]

definition computeAllDailyBalances :: "(booking_date \<times> rat) list \<Rightarrow> (int \<times> rat) list" where
  "computeAllDailyBalances dailyBalances =
     (case (startDate (allDates dailyBalances), endDate (allDates dailyBalances)) of
        (Fin s, Fin e) \<Rightarrow> fillLoop dailyBalances \<lfloor>s\<rfloor> \<lfloor>e\<rfloor> 0
      | _ \<Rightarrow> [])"

text \<open>
  The ISO week of a day, as \<open>getWeekNumber\<close> computes it: the year and the week of
  the Thursday of the day's week. A week key \<^verbatim>\<open>YYYY-Www\<close> is held as the pair of year
  and week and a month key \<^verbatim>\<open>YYYY-MM\<close> as the pair of year and month; the pairs are
  ordered as the strings are.
\<close>

definition mathRound :: "rat \<Rightarrow> int" where
  "mathRound q = \<lfloor>q + 1 / 2\<rfloor>"

definition getWeekNumber :: "int \<Rightarrow> int \<times> int" where
  "getWeekNumber d =
     (let date = d + 3 - (getDay d + 6) mod 7;
          week1 = daysFromCivil (getFullYear date) 1 4;
          weekNum = 1 + mathRound ((of_int (date - week1) - 3 + of_int ((getDay week1 + 6) mod 7)) / 7)
      in (getFullYear date, weekNum))"

definition monthKey :: "int \<Rightarrow> int \<times> int" where
  "monthKey d = (getFullYear d, getMonth d + 1)"

definition weeklyBalances :: "(int \<times> rat) list \<Rightarrow> ((int \<times> int) \<times> rat list) list" where
  "weeklyBalances allDaily =
     foldl (\<lambda>obj (date, balance). groupPush obj (getWeekNumber date) balance) [] allDaily"

definition monthlyBalances :: "(int \<times> rat) list \<Rightarrow> ((int \<times> int) \<times> rat list) list" where
  "monthlyBalances allDaily =
     foldl (\<lambda>obj (date, balance). groupPush obj (monthKey date) balance) [] allDaily"

record period_summary =
  period :: "int \<times> int"
  avgBalance :: jsnumber
  minBalance :: "rat option"
  maxBalance :: "rat option"
  days :: nat

definition comparePeriods :: "period_summary \<Rightarrow> period_summary \<Rightarrow> jsnumber" where
  "comparePeriods a b =
     (if period a = period b then Fin 0
      else if fst (period a) < fst (period b)
              \<or> (fst (period a) = fst (period b) \<and> snd (period a) < snd (period b))
      then Fin (- 1) else Fin 1)"

definition avgBalances :: "((int \<times> int) \<times> rat list) list \<Rightarrow> period_summary list" where
  "avgBalances buckets =
     sortBy comparePeriods
       (map (\<lambda>(k, balances).
               \<lparr>period = k,
                avgBalance = jsDivide (sum_list balances) (of_nat (length balances)),
                minBalance = lodashMin balances,
                maxBalance = lodashMax balances,
                days = length balances\<rparr>) buckets)"

record yearly_balance =
  totalDays :: nat
  sumOfDailyBalances :: rat
  yearlyAvgBalance :: jsnumber

definition computeYearlyBalance :: "(int \<times> rat) list \<Rightarrow> yearly_balance" where
  "computeYearlyBalance allDaily =
     (let totalDays = length allDaily;
          sumOfDailyBalances = sum_list (map snd allDaily)
      in \<lparr>totalDays = totalDays,
          sumOfDailyBalances = sumOfDailyBalances,
          yearlyAvgBalance = jsDivide sumOfDailyBalances (of_nat totalDays)\<rparr>)"

record daily_entry =
  date :: int
  balance :: rat
  hasTransaction :: bool
  quarter :: int

definition formattedDailyData :: "(booking_date \<times> rat) list \<Rightarrow> (int \<times> rat) list \<Rightarrow> daily_entry list" where
  "formattedDailyData dailyBalances allDaily =
     sortBy (\<lambda>a b. Fin (of_int (if date a = date b then 0 else if date a < date b then - 1 else 1)))
       (map (\<lambda>(d, b).
               \<lparr>date = d,
                balance = b,
                hasTransaction = (map_of dailyBalances (IsoDate d) \<noteq> None),
                quarter = getMonth d div 3 + 1\<rparr>) allDaily)"

subsection \<open>The result\<close>

record basic_stats =
  dateRangeStart :: int
  dateRangeEnd :: int
  totalTransactions :: nat
  totalVolume :: rat
  inflows :: rat
  outflows :: rat
  netFlow :: rat

text \<open>
  The fields of the result object that the properties below are about; the monthly
  statistics, the two distributions and the largest transactions are left out.
\<close>

record analysis_result =
  basicStats :: basic_stats
  partnerVolumes :: "partner_volume list"
  dailyBalances :: "daily_entry list"
  weeklyAvgBalances :: "period_summary list"
  monthlyAvgBalances :: "period_summary list"
  yearlyBalance :: yearly_balance
  allTransactions :: "transaction list"

text \<open>
  The object given to \<open>setData\<close>, for a list in which every booking date has a time
  and whose sorted times start with \<open>minDate\<close> and end with \<open>maxDate\<close>.
\<close>

definition buildResult :: "host \<Rightarrow> transaction list \<Rightarrow> rat \<Rightarrow> rat \<Rightarrow> analysis_result" where
  "buildResult h transactions minDate maxDate =
     (let sortedTxs = sortedTransactions transactions;
          inflows = sumBy (\<lambda>t. if amount t > 0 then amount t else 0) transactions;
          outflows = sumBy (\<lambda>t. if amount t < 0 then amount t else 0) transactions;
          consolidated = consolidatedSortedTransactions transactions;
          daily = computeDailyBalances sortedTxs;
          allDaily = computeAllDailyBalances daily
      in \<lparr>basicStats =
            \<lparr>dateRangeStart = \<lfloor>minDate\<rfloor> div msPerDay,
             dateRangeEnd = \<lfloor>maxDate\<rfloor> div msPerDay,
             totalTransactions = length transactions,
             totalVolume = sumBy (\<lambda>t. \<bar>amount t\<bar>) transactions,
             inflows = inflows,
             outflows = outflows,
             netFlow = inflows + outflows\<rparr>,
          partnerVolumes = take 10 (computePartnerVolumes h consolidated),
          dailyBalances = formattedDailyData daily allDaily,
          weeklyAvgBalances = avgBalances (weeklyBalances allDaily),
          monthlyAvgBalances = avgBalances (monthlyBalances allDaily),
          yearlyBalance = computeYearlyBalance allDaily,
          allTransactions = consolidated\<rparr>)"

text \<open>
  The analysis, with the two places where it throws: \<^verbatim>\<open>toISOString\<close> of a booking
  date without a time, when the transactions are grouped by month (a \<open>RangeError\<close>),
  and \<^verbatim>\<open>minDate.toISOString()\<close> with \<open>minDate\<close> undefined, when there is no transaction
  (a \<open>TypeError\<close>).
\<close>

definition analyze :: "host \<Rightarrow> transaction list \<Rightarrow> js_error + analysis_result" where
  "analyze h transactions =
     (if list_ex (\<lambda>t. bookingTime (bookingDate t) = NaN) transactions then Inl RangeError
      else case dates transactions of
             [] \<Rightarrow> Inl TypeError
           | d # ds \<Rightarrow>
               (case (d, last (d # ds)) of
                  (Fin minDate, Fin maxDate) \<Rightarrow> Inr (buildResult h transactions minDate maxDate)
                | _ \<Rightarrow> Inl RangeError))"

text \<open>
  The effect that loads the data: without CSV text it reports that; otherwise the
  text is parsed (by Papa Parse, not part of the sources) into the transactions and
  analysed, and the result is stored, or the failure is.
\<close>

datatype load_error = NoCsvData | ProcessingFailed js_error

record dashboard_state =
  dataState :: "analysis_result option"
  isLoading :: bool
  errorState :: "load_error option"

definition initialState :: dashboard_state where
  "initialState = \<lparr>dataState = None, isLoading = True, errorState = None\<rparr>"

definition loadEffect :: "host \<Rightarrow> transaction list option \<Rightarrow> dashboard_state \<Rightarrow> dashboard_state" where
  "loadEffect h csvData s =
     (case csvData of
        None \<Rightarrow> s\<lparr>errorState := Some NoCsvData, isLoading := False\<rparr>
      | Some transactions \<Rightarrow>
          (case analyze h transactions of
             Inr r \<Rightarrow> s\<lparr>dataState := Some r, isLoading := False\<rparr>
           | Inl e \<Rightarrow> s\<lparr>errorState := Some (ProcessingFailed e), isLoading := False\<rparr>))"

subsection \<open>Notions of the properties\<close>










section \<open>Inputs for the examples\<close>






text \<open>
  A host for the examples: on the few strings and numbers the examples use it
  answers as a JavaScript engine does (\<^verbatim>\<open>Date.parse('2024-01-01')\<close> is 1704067200000,
  text that is no date parses to \<open>NaN\<close>, strings compare by code unit); every other
  argument gets a placeholder. \<open>missing\<close> is a cell without a value.
  \<open>typeColumn\<close> is the Type column of the table of all transactions
  (FinancialDashboard.js, line 769), whose renderer expects the cell value;
  \<open>amountColumn\<close> is a number column with a renderer, as the Amount column of the
  largest inflows (line 538).
\<close>

fun codeCompare :: "string \<Rightarrow> string \<Rightarrow> int" where
  "codeCompare [] [] = 0"
| "codeCompare [] (y # ys) = - 1"
| "codeCompare (x # xs) [] = 1"
| "codeCompare (x # xs) (y # ys) =
     (if x = y then codeCompare xs ys
      else if (of_char x :: nat) < of_char y then - 1 else 1)"

definition sampleHost :: host where
  "sampleHost = \<lparr>
     dateParse = (\<lambda>s. if s = ''2024-01-01'' then Fin 1704067200000 else NaN),
     stringToNumber = (\<lambda>s. if s = [] then Fin 0 else NaN),
     numberToString = (\<lambda>q. if q = 0 then ''0'' else if q = 100 then ''100'' else ''#''),
     localeCompare = codeCompare,
     isoDate = (\<lambda>t. if t = 1704067200000 then ''2024-01-01'' else ''#'')\<rparr>"


definition typeColumn :: column where
  "typeColumn =
     \<lparr>key = ''Type'', header = ''Type'', ctype = Some ''string'',
      render = Some (\<lambda>value. if value = Str ''Presentment'' then Str ''Card Payment''
                             else if value = Str ''Presentment Refund'' then Str ''Card Refund''
                             else value)\<rparr>"

definition typeTable :: "bool \<Rightarrow> table_props" where
  "typeTable virtualized =
     \<lparr>tableName = ''All_Transactions'', columns = [typeColumn], rowClassName = [],
      getRowClassName = (\<lambda>r. []), useVirtualization = virtualized, virtualHeight = 600,
      rowHeight = 40, defaultSortKey = Some ''Booking Date'', defaultSortDirection = Some Desc\<rparr>"

definition amountColumn :: column where
  "amountColumn =
     \<lparr>key = ''value'', header = ''Amount'', ctype = Some ''number'',
      render = Some (\<lambda>r. Str ''EUR'')\<rparr>"

definition amountTable :: table_props where
  "amountTable =
     \<lparr>tableName = ''Largest Inflows'', columns = [amountColumn], rowClassName = [],
      getRowClassName = (\<lambda>r. []), useVirtualization = False, virtualHeight = 400,
      rowHeight = 35, defaultSortKey = None, defaultSortDirection = None\<rparr>"

text \<open>A store with two row objects and the caller's array of both, at address 2.\<close>

definition sampleStore :: store where
  "sampleStore =
     [RowCell [(''n'', Number (Fin 2))], RowCell [(''n'', Number (Fin 1))], ArrayCell [0, 1]]"

section \<open>Properties of the table\<close>

subsection \<open>Sort state\<close>

lemma requestSort_same_key:
  "sortKey cfg = Some k \<Longrightarrow>
   requestSort cols k cfg =
     \<lparr>sortKey = Some k, sortDirection = (if sortDirection cfg = Asc then Desc else Asc)\<rparr>"
  by (cases "sortDirection cfg") (simp_all add: requestSort_def Let_def)

lemma requestSort_new_key:
  "sortKey cfg \<noteq> Some k \<Longrightarrow>
   requestSort cols k cfg =
     \<lparr>sortKey = Some k,
      sortDirection = (if columnType cols k = ''number'' \<or> columnType cols k = ''date''
                       then Desc else Asc)\<rparr>"
  by (simp add: requestSort_def Let_def)

text \<open>
  C4. Activating the active column flips the direction and activating another column
  selects it with the default direction of its type (the two lemmas above). The
  initial sort state, however, is always the unsorted one: the table of all
  transactions is given \<open>defaultSortKey\<close> "Booking Date" and \<open>defaultSortDirection\<close>
  descending, and starts unsorted all the same, where the claim has the supplied pair
  as the initial sort.
\<close>

theorem initialSortConfig_ignores_default:
  "defaultSortKey (typeTable True) = Some ''Booking Date''
   \<and> defaultSortDirection (typeTable True) = Some Desc
   \<and> initialSortConfig (typeTable True) = \<lparr>sortKey = None, sortDirection = Asc\<rparr>"
  by (simp add: initialSortConfig_def typeTable_def)

subsection \<open>Comparison\<close>




subsection \<open>Rendering\<close>

lemma visibleIndices_all:
  assumes "0 < itemSize" and "itemCount * itemSize \<le> height"
  shows "visibleIndices height itemSize itemCount 0 = [0..<itemCount]"
proof -
  have "i * itemSize < height" if "i < itemCount" for i
  proof -
    have "i * itemSize < itemCount * itemSize" using that assms(1) by simp
    then show ?thesis using assms(2) by (rule less_le_trans)
  qed
  then have "\<forall>i\<in>set [0..<itemCount]. i * itemSize < 0 + height \<and> 0 < (i + 1) * itemSize"
    using assms(1) by simp
  then show ?thesis unfolding visibleIndices_def by (simp only: filter_True)
qed

lemma RowRenderer_no_render:
  assumes "\<forall>c\<in>set (columns p). render c = None" and "i < length rows"
  shows "RowRenderer p rows i = plainRow p (rows ! i)"
  using assms by (simp add: RowRenderer_def plainRow_def Let_def cong: map_cong)

lemma bodies_agree_without_render:
  assumes "\<forall>c\<in>set (columns p). render c = None"
    and "0 < rowHeight p" and "length rows * rowHeight p \<le> virtualHeight p"
  shows "virtualBody p rows 0 = plainBody p rows"
proof -
  have "virtualBody p rows 0 = map (RowRenderer p rows) [0..<length rows]"
    using assms(2,3) by (simp add: virtualBody_def visibleIndices_all)
  also have "\<dots> = map (\<lambda>i. plainRow p (rows ! i)) [0..<length rows]"
    using assms(1) by (simp add: RowRenderer_no_render)
  also have "\<dots> = map (plainRow p) rows"
    by (rule nth_equalityI) simp_all
  finally show ?thesis by (simp add: plainBody_def)
qed

text \<open>
  C3. Without renderers the two bodies agree when the viewport holds every row (the
  lemma above). With a renderer they do not: the plain body hands the renderer the
  row, \<open>RowRenderer\<close> hands it the cell value. For the Type column and one row of type
  Presentment the plain body shows what the renderer makes of the row object (the
  object itself) and the virtualized body shows "Card Payment".
\<close>

theorem render_modes_differ:
  "tableBody sampleHost (typeTable False) (initialSortConfig (typeTable False))
       [[(''Type'', Str ''Presentment'')]] 0
     = [\<lparr>rowClass = ''tr flex border-b border-gray-200  '',
         cells = [Obj [(''Type'', Str ''Presentment'')]]\<rparr>]
   \<and> tableBody sampleHost (typeTable True) (initialSortConfig (typeTable True))
       [[(''Type'', Str ''Presentment'')]] 0
     = [\<lparr>rowClass = ''tr flex border-b border-gray-200  '',
         cells = [Str ''Card Payment'']\<rparr>]"
  by (simp add: tableBody_def typeTable_def typeColumn_def initialSortConfig_def sortedData_def
      plainBody_def plainRow_def virtualBody_def RowRenderer_def visibleIndices_def trClass_def
      getProp_def)

subsection \<open>Export\<close>

lemma export_empty:
  "exportToCSV h today p cfg [] = Alert ''No data to export''
   \<and> exportToJSON h today p cfg [] = Alert ''No data to export''"
  by (simp add: exportToCSV_def exportToJSON_def)

lemma exportToJSON_rows:
  "data \<noteq> [] \<Longrightarrow>
   exportToJSON h today p cfg data =
     SaveAs (map (exportRow (columns p)) (sortedData h (columns p) cfg data))
       (exportFileName (tableName p) today ''.json'')"
  by (simp add: exportToJSON_def)

lemma csvField_cases:
  "csvField h Null = [] \<and> csvField h Undefined = []
   \<and> (CHR '','' \<in> set s \<longrightarrow> csvField h (Str s) = [CHR 0x22] @ s @ [CHR 0x22])"
  by (simp add: csvField_def)

text \<open>
  C7. An empty collection makes both exports report "No data to export", both exports
  read \<open>sortedData\<close>, and a string with a comma is quoted (the lemmas above). A \<open>null\<close>
  cell, however, is not always an empty field: in a number column that has a renderer
  the value is first converted with \<^verbatim>\<open>Number\<close>, and \<open>null\<close> is exported as 0.
\<close>

theorem exportToCSV_null_number:
  "exportToCSV sampleHost ''2024-06-01'' amountTable (initialSortConfig amountTable)
       [[(''value'', Null)]]
     = SaveAs (''Amount'' @ [CHR 0x0A] @ ''0'') ''Largest_Inflows_2024-06-01.csv''"
  by (simp add: exportToCSV_def amountTable_def amountColumn_def initialSortConfig_def
      sortedData_def csvRow_def csvValue_def csvField_def getProp_def sampleHost_def
      exportFileName_def isSpace_def)

subsection \<open>The caller's data\<close>

lemma insertBy_map:
  "map f (insertBy (\<lambda>a b. cmp (f a) (f b)) x xs) = insertBy cmp (f x) (map f xs)"
  by (induction xs) simp_all

lemma sortBy_map_aux:
  "map f (foldl (\<lambda>acc x. insertBy (\<lambda>a b. cmp (f a) (f b)) x acc) acc xs)
     = foldl (\<lambda>acc x. insertBy cmp x acc) (map f acc) (map f xs)"
  by (induction xs arbitrary: acc) (simp_all add: insertBy_map)

lemma sortBy_map: "map f (sortBy (\<lambda>a b. cmp (f a) (f b)) xs) = sortBy cmp (map f xs)"
  by (simp add: sortBy_def sortBy_map_aux)

lemma sortedDataRef_prefix:
  "sortedDataRef h cols cfg st dataRef = (st', v) \<Longrightarrow> take (length st) st' = st"
  by (auto simp: sortedDataRef_def spread_def arraySort_def split: option.splits if_splits)

lemma sortedDataRef_length:
  "sortedDataRef h cols cfg st dataRef = (st', v) \<Longrightarrow> length st \<le> length st'"
  by (auto simp: sortedDataRef_def spread_def arraySort_def split: option.splits if_splits)

lemma tableStep_prefix:
  "tableStep h today p dataRef s op = (s', e) \<Longrightarrow>
     take (length (heap s)) (heap s') = heap s \<and> length (heap s) \<le> length (heap s')"
  by (cases op)
     (auto simp: tableStep_def Let_def split: prod.splits
           dest: sortedDataRef_prefix sortedDataRef_length)

lemma take_prefix_trans:
  assumes "take (length a) b = a" and "take (length b) c = b" and "length a \<le> length b"
  shows "take (length a) c = a"
proof -
  have "take (length a) c = take (length a) (take (length b) c)"
    using assms(3) by (simp add: min_def)
  then show ?thesis using assms(1,2) by simp
qed

lemma tableRun_prefix:
  "tableRun h today p dataRef s ops = (s', es) \<Longrightarrow>
     take (length (heap s)) (heap s') = heap s \<and> length (heap s) \<le> length (heap s')"
proof (induction ops arbitrary: s s' es)
  case Nil
  then show ?case by simp
next
  case (Cons op ops)
  obtain s1 e where step: "tableStep h today p dataRef s op = (s1, e)"
    by (cases "tableStep h today p dataRef s op")
  obtain s2 es2 where rest: "tableRun h today p dataRef s1 ops = (s2, es2)"
    by (cases "tableRun h today p dataRef s1 ops")
  from Cons.prems step rest have s': "s' = s2" by simp
  from tableStep_prefix[OF step] Cons.IH[OF rest] show ?case
    unfolding s' by (metis take_prefix_trans le_trans)
qed

text \<open>
  C10. Whatever headers are activated and whatever is exported, every cell the store
  held when the table was mounted is as it was: the caller's array holds the same
  references in the same order and the row objects are unchanged. A sort writes only
  to the copy it allocates.
\<close>

theorem table_preserves_store:
  "take (length st) (heap (fst (tableRun h today p dataRef (mount p st dataRef) ops))) = st
   \<and> (dataRef < length st \<and> (\<forall>a\<in>set (elements st dataRef). a < length st) \<longrightarrow>
        elements (heap (fst (tableRun h today p dataRef (mount p st dataRef) ops))) dataRef
          = elements st dataRef
        \<and> rowsOf (heap (fst (tableRun h today p dataRef (mount p st dataRef) ops))) dataRef
          = rowsOf st dataRef)"
proof -
  obtain s' es where r: "tableRun h today p dataRef (mount p st dataRef) ops = (s', es)"
    by (cases "tableRun h today p dataRef (mount p st dataRef) ops")
  from tableRun_prefix[OF r] have pre: "take (length st) (heap s') = st"
    and len: "length st \<le> length (heap s')"
    by (simp_all add: mount_def)
  have nth: "heap s' ! a = st ! a" if "a < length st" for a
    using that pre by (metis nth_take)
  have row: "rowAt (heap s') a = rowAt st a" if "a < length st" for a
    using that nth len by (simp add: rowAt_def)
  have els: "elements (heap s') dataRef = elements st dataRef" if "dataRef < length st"
    using that nth len by (simp add: elements_def)
  have rows: "rowsOf (heap s') dataRef = rowsOf st dataRef"
    if "dataRef < length st" and "\<forall>a\<in>set (elements st dataRef). a < length st"
    using that els row by (simp add: rowsOf_def)
  from pre els rows show ?thesis by (simp add: r)
qed

theorem table_preserves_store_witness:
  "2 < length sampleStore
   \<and> elements sampleStore 2 = [0, 1]
   \<and> rowsOf (heap (fst (tableRun sampleHost ''2024-06-01'' amountTable 2
         (mount amountTable sampleStore 2)
         [RequestSort ''n'', ExportCSV, RequestSort ''n'', ExportJSON]))) 2
       = [[(''n'', Number (Fin 2))], [(''n'', Number (Fin 1))]]"
proof -
  have e: "elements sampleStore 2 = [0, 1]"
    by (simp add: elements_def sampleStore_def)
  have w: "2 < length sampleStore \<and> (\<forall>a\<in>set (elements sampleStore 2). a < length sampleStore)"
    unfolding e by (simp add: sampleStore_def)
  have v: "rowsOf sampleStore 2 = [[(''n'', Number (Fin 2))], [(''n'', Number (Fin 1))]]"
    unfolding rowsOf_def e by (simp add: rowAt_def sampleStore_def)
  have "rowsOf (heap (fst (tableRun sampleHost ''2024-06-01'' amountTable 2
         (mount amountTable sampleStore 2)
         [RequestSort ''n'', ExportCSV, RequestSort ''n'', ExportJSON]))) 2
       = rowsOf sampleStore 2"
    using table_preserves_store[where st = sampleStore and dataRef = 2 and h = sampleHost
      and today = "''2024-06-01''" and p = amountTable
      and ops = "[RequestSort ''n'', ExportCSV, RequestSort ''n'', ExportJSON]"] w
    by blast
  with w v e show ?thesis by simp
qed

section \<open>Properties of the analysis\<close>

subsection \<open>Sorting and the helpers\<close>

lemma mset_insertBy: "mset (insertBy cmp x ys) = add_mset x (mset ys)"
  by (induction ys) simp_all






lemma sorted_insertBy:
  fixes k :: "'a \<Rightarrow> 'b::linorder"
  assumes "\<And>a b. comesAfter (cmp a b) = (k b < k a)" and "sorted (map k ys)"
  shows "sorted (map k (insertBy cmp x ys))"
  using assms(2)
proof (induction ys)
  case Nil
  then show ?case by simp
next
  case (Cons y ys)
  have "set (insertBy cmp x ys) = insert x (set ys)"
    by (metis mset_insertBy set_mset_add_mset_insert set_mset_mset)
  with Cons show ?case by (auto simp: assms(1))
qed

lemma sorted_sortBy_aux:
  fixes k :: "'a \<Rightarrow> 'b::linorder"
  assumes "\<And>a b. comesAfter (cmp a b) = (k b < k a)" and "sorted (map k acc)"
  shows "sorted (map k (foldl (\<lambda>acc x. insertBy cmp x acc) acc xs))"
  using assms(2)
  by (induction xs arbitrary: acc) (simp_all add: sorted_insertBy[OF assms(1)])

lemma sorted_sortBy:
  fixes k :: "'a \<Rightarrow> 'b::linorder"
  assumes "\<And>a b. comesAfter (cmp a b) = (k b < k a)"
  shows "sorted (map k (sortBy cmp xs))"
  unfolding sortBy_def by (rule sorted_sortBy_aux[OF assms]) simp




lemma map_of_replace:
  "map_of (map (\<lambda>(k', v'). if k' = k then (k', v) else (k', v')) obj) x
     = (if x = k then map_option (\<lambda>u. v) (map_of obj k) else map_of obj x)"
  by (induction obj) auto

lemma fst_replace:
  "map fst (map (\<lambda>(k', v'). if k' = k then (k', v) else (k', v')) obj) = map fst obj"
  by (induction obj) auto


lemma map_of_setProp_other: "k' \<noteq> k \<Longrightarrow> map_of (setProp obj k v) k' = map_of obj k'"
  by (auto simp: setProp_def map_of_replace map_add_def split: option.splits)




















subsection \<open>The steps for dated transactions\<close>
















subsection \<open>The daily balances\<close>














subsection \<open>The averages\<close>

lemma setProp_absent: "k \<notin> fst ` set obj \<Longrightarrow> setProp obj k v = obj @ [(k, v)]"
  by (simp add: setProp_def)























subsection \<open>No transactions\<close>

text \<open>
  C6. With no transaction the analysis fails (\<open>minDate\<close> is undefined): no result
  object is built, the state keeps no data and holds the failure.
\<close>

theorem empty_input_no_result:
  "analyze h [] = Inl TypeError
   \<and> loadEffect h (Some []) initialState
       = \<lparr>dataState = None, isLoading = False, errorState = Some (ProcessingFailed TypeError)\<rparr>"
  by (simp add: analyze_def dates_def sortBy_def loadEffect_def initialState_def)

end
